theory Spec2Isabelle
  imports Complex_Main "HOL-Library.Multiset"
begin

section \<open>JavaScript values used by popup.js\<close>

text \<open>
  A JavaScript number is modelled by its mathematical value: \<open>NaN\<close>, the two infinities,
  or a finite rational (every finite double is one). The two zeros are one value. The
  rounding of a literal to the nearest double is not modelled: \<^verbatim>\<open>Number\<close> and \<^verbatim>\<open>parseInt\<close>
  give the exact value of what they read. The clamp of a price level into \<open>1..4\<close> does
  not see the difference, since rounding is monotone and keeps 1 and 4; the result about
  the price filter takes the two bounds as the numbers that the conversion gives.

  A string is a list of code units below 256.
\<close>

datatype jsnum = NaN | NegInfinity | Infinity | Fin rat

text \<open>The relational operators \<^verbatim>\<open><=\<close> and \<^verbatim>\<open>>=\<close>: false as soon as one side is \<open>NaN\<close>.\<close>

fun js_le :: "jsnum \<Rightarrow> jsnum \<Rightarrow> bool" where
  "js_le NaN y = False"
| "js_le x NaN = False"
| "js_le NegInfinity y = True"
| "js_le x Infinity = True"
| "js_le Infinity y = False"
| "js_le x NegInfinity = False"
| "js_le (Fin a) (Fin b) = (a \<le> b)"

definition js_ge :: "jsnum \<Rightarrow> jsnum \<Rightarrow> bool" where
  "js_ge x y = js_le y x"

text \<open>\<^verbatim>\<open>Math.max\<close> and \<^verbatim>\<open>Math.min\<close> of two numbers: \<open>NaN\<close> if either is \<open>NaN\<close>.\<close>

definition Math_max :: "jsnum \<Rightarrow> jsnum \<Rightarrow> jsnum" where
  "Math_max x y = (if x = NaN \<or> y = NaN then NaN else if js_le x y then y else x)"

definition Math_min :: "jsnum \<Rightarrow> jsnum \<Rightarrow> jsnum" where
  "Math_min x y = (if x = NaN \<or> y = NaN then NaN else if js_le x y then x else y)"

subsection \<open>Strings\<close>

text \<open>
  White space as \<^verbatim>\<open>Number\<close> and \<^verbatim>\<open>parseInt\<close> strip it: TAB, LF, VT, FF, CR, space and
  the no-break space.
\<close>

definition is_space :: "char \<Rightarrow> bool" where
  "is_space c = (of_char c \<in> {9, 10, 11, 12, 13, 32, 160 :: nat})"

definition trim_start :: "string \<Rightarrow> string" where
  "trim_start s = dropWhile is_space s"

definition trim :: "string \<Rightarrow> string" where
  "trim s = rev (dropWhile is_space (rev (dropWhile is_space s)))"

definition is_digit :: "char \<Rightarrow> bool" where
  "is_digit c = (48 \<le> (of_char c :: nat) \<and> (of_char c :: nat) \<le> 57)"

definition is_hex_digit :: "char \<Rightarrow> bool" where
  "is_hex_digit c = (is_digit c \<or> (97 \<le> (of_char c :: nat) \<and> (of_char c :: nat) \<le> 102)
     \<or> (65 \<le> (of_char c :: nat) \<and> (of_char c :: nat) \<le> 70))"

definition is_octal_digit :: "char \<Rightarrow> bool" where
  "is_octal_digit c = (48 \<le> (of_char c :: nat) \<and> (of_char c :: nat) \<le> 55)"

definition is_binary_digit :: "char \<Rightarrow> bool" where
  "is_binary_digit c = (c = CHR ''0'' \<or> c = CHR ''1'')"

definition digit_value :: "char \<Rightarrow> nat" where
  "digit_value c =
     (if is_digit c then of_char c - 48
      else if 97 \<le> (of_char c :: nat) then of_char c - 87
      else of_char c - 55)"

text \<open>The value of a digit sequence in a radix, most significant digit first.\<close>

definition digits_value :: "nat \<Rightarrow> string \<Rightarrow> nat" where
  "digits_value radix ds = foldl (\<lambda>acc c. acc * radix + digit_value c) 0 ds"

text \<open>\<^verbatim>\<open>s.split(sep)\<close> for a one-character separator; \<open>cur\<close> is the piece being read, reversed.\<close>

fun split_from :: "char \<Rightarrow> string \<Rightarrow> string \<Rightarrow> string list" where
  "split_from sep cur [] = [rev cur]"
| "split_from sep cur (c # cs) =
     (if c = sep then rev cur # split_from sep [] cs else split_from sep (c # cur) cs)"

definition split :: "char \<Rightarrow> string \<Rightarrow> string list" where
  "split sep s = split_from sep [] s"

text \<open>\<^verbatim>\<open>s.includes(c)\<close> for a one-character argument.\<close>

definition includes_chr :: "string \<Rightarrow> char \<Rightarrow> bool" where
  "includes_chr s c = (c \<in> set s)"

subsection \<open>String to number\<close>

text \<open>
  \<^verbatim>\<open>Number(s)\<close> on a string (the grammar \<^verbatim>\<open>StringNumericLiteral\<close>): white space is trimmed
  on both sides; the empty string is 0; \<^verbatim>\<open>0x\<close>, \<^verbatim>\<open>0o\<close> and \<^verbatim>\<open>0b\<close> integers carry no sign;
  a decimal literal is an optional sign, then \<^verbatim>\<open>Infinity\<close> or digits with an optional
  fraction and an optional exponent, and at least one digit before or after the point.
  Anything else is \<open>NaN\<close>.
\<close>

definition all_digits :: "string \<Rightarrow> bool" where
  "all_digits ds = (ds \<noteq> [] \<and> list_all is_digit ds)"

text \<open>The exponent part when there is one: \<open>Some e\<close> for a well-formed or absent part.\<close>

definition exponent_part :: "string \<Rightarrow> int option" where
  "exponent_part s =
     (case s of
        [] \<Rightarrow> Some 0
      | c # r \<Rightarrow>
          if c = CHR ''e'' \<or> c = CHR ''E'' then
            (case r of
               [] \<Rightarrow> None
             | d # r' \<Rightarrow>
                 if d = CHR ''+'' then
                   (if all_digits r' then Some (int (digits_value 10 r')) else None)
                 else if d = CHR ''-'' then
                   (if all_digits r' then Some (- int (digits_value 10 r')) else None)
                 else if all_digits r then Some (int (digits_value 10 r)) else None)
          else None)"

definition scale10 :: "rat \<Rightarrow> int \<Rightarrow> rat" where
  "scale10 q e = (if 0 \<le> e then q * 10 ^ nat e else q / 10 ^ nat (- e))"

definition unsigned_decimal :: "string \<Rightarrow> jsnum" where
  "unsigned_decimal u =
     (if u = ''Infinity'' then Infinity
      else
        let ip = takeWhile is_digit u; r = dropWhile is_digit u in
        (case r of
           [] \<Rightarrow> if ip = [] then NaN else Fin (of_nat (digits_value 10 ip))
         | c # r' \<Rightarrow>
             if c = CHR ''.'' then
               (let fp = takeWhile is_digit r'; r'' = dropWhile is_digit r' in
                if ip = [] \<and> fp = [] then NaN
                else
                  (case exponent_part r'' of
                     None \<Rightarrow> NaN
                   | Some e \<Rightarrow>
                       Fin (scale10 (of_nat (digits_value 10 ip)
                              + of_nat (digits_value 10 fp) / 10 ^ length fp) e)))
             else if ip = [] then NaN
             else
               (case exponent_part r of
                  None \<Rightarrow> NaN
                | Some e \<Rightarrow> Fin (scale10 (of_nat (digits_value 10 ip)) e))))"

definition negate :: "jsnum \<Rightarrow> jsnum" where
  "negate x = (case x of NaN \<Rightarrow> NaN | NegInfinity \<Rightarrow> Infinity | Infinity \<Rightarrow> NegInfinity
     | Fin q \<Rightarrow> Fin (- q))"

definition prefixed_integer :: "nat \<Rightarrow> (char \<Rightarrow> bool) \<Rightarrow> string \<Rightarrow> jsnum" where
  "prefixed_integer radix ok ds =
     (if ds \<noteq> [] \<and> list_all ok ds then Fin (of_nat (digits_value radix ds)) else NaN)"

text \<open>The radix, the digit test and the digits of a \<^verbatim>\<open>0x\<close>, \<^verbatim>\<open>0o\<close> or \<^verbatim>\<open>0b\<close> literal.\<close>

definition radix_prefix :: "string \<Rightarrow> (nat \<times> (char \<Rightarrow> bool) \<times> string) option" where
  "radix_prefix t =
     (case t of
        c # x # ds \<Rightarrow>
          if c \<noteq> CHR ''0'' then None
          else if x = CHR ''x'' \<or> x = CHR ''X'' then Some (16, is_hex_digit, ds)
          else if x = CHR ''o'' \<or> x = CHR ''O'' then Some (8, is_octal_digit, ds)
          else if x = CHR ''b'' \<or> x = CHR ''B'' then Some (2, is_binary_digit, ds)
          else None
      | _ \<Rightarrow> None)"

definition Number :: "string \<Rightarrow> jsnum" where
  "Number s =
     (let t = trim s in
      case t of
        [] \<Rightarrow> Fin 0
      | c # r \<Rightarrow>
          (case radix_prefix t of
             Some (radix, ok, ds) \<Rightarrow> prefixed_integer radix ok ds
           | None \<Rightarrow>
               if c = CHR ''+'' then unsigned_decimal r
               else if c = CHR ''-'' then negate (unsigned_decimal r)
               else unsigned_decimal t))"

text \<open>\<^verbatim>\<open>isNaN(s)\<close> converts its argument with \<^verbatim>\<open>Number\<close> first.\<close>

definition isNaN :: "string \<Rightarrow> bool" where
  "isNaN s = (Number s = NaN)"

text \<open>
  \<^verbatim>\<open>parseInt(s)\<close> with no radix: leading white space and one sign are dropped, a \<^verbatim>\<open>0x\<close>
  prefix selects radix 16, and the longest prefix of digits is read; no digit at all is
  \<open>NaN\<close>. What follows the digits is ignored.
\<close>

definition parse_digits :: "int \<Rightarrow> string \<Rightarrow> jsnum" where
  "parse_digits sign s =
     (if length s \<ge> 2 \<and> s ! 0 = CHR ''0'' \<and> (s ! 1 = CHR ''x'' \<or> s ! 1 = CHR ''X'') then
        (let z = takeWhile is_hex_digit (drop 2 s) in
         if z = [] then NaN else Fin (of_int (sign * int (digits_value 16 z))))
      else
        (let z = takeWhile is_digit s in
         if z = [] then NaN else Fin (of_int (sign * int (digits_value 10 z)))))"

definition parseInt :: "string \<Rightarrow> jsnum" where
  "parseInt s =
     (case trim_start s of
        [] \<Rightarrow> NaN
      | c # r \<Rightarrow>
          if c = CHR ''-'' then parse_digits (- 1) r
          else if c = CHR ''+'' then parse_digits 1 r
          else parse_digits 1 (c # r))"

text \<open>
  \<^verbatim>\<open>s.repeat(count)\<close>: the count is truncated to an integer, \<open>NaN\<close> counting as 0; a
  negative or infinite count raises \<^verbatim>\<open>RangeError\<close> (\<open>None\<close>).
\<close>

definition repeat :: "string \<Rightarrow> jsnum \<Rightarrow> string option" where
  "repeat s cnt =
     (case cnt of
        NaN \<Rightarrow> Some []
      | NegInfinity \<Rightarrow> None
      | Infinity \<Rightarrow> None
      | Fin q \<Rightarrow>
          (let n = (if q < 0 then \<lceil>q\<rceil> else \<lfloor>q\<rfloor>) in
           if n < 0 then None else Some (concat (replicate (nat n) s))))"

section \<open>fetchRestaurants: the price level of an element\<close>

text \<open>
  Lines 97 to 110 and 113 of popup.js. \<open>price_tag\<close> is \<^verbatim>\<open>element.tags.price\<close>, \<open>None\<close>
  when the tag is absent. An absent tag and the empty string are falsy.
\<close>

definition priceLevel :: "string option \<Rightarrow> jsnum" where
  "priceLevel price_tag =
     (case price_tag of
        None \<Rightarrow> Fin 2
      | Some p \<Rightarrow>
          if p = [] then Fin 2
          else
            (let level =
               (if includes_chr p CHR ''$'' then Fin (of_int (int (length (split CHR ''$'' p)) - 1))
                else if \<not> isNaN p then parseInt p
                else Fin 2)
             in Math_min (Math_max level (Fin 1)) (Fin 4)))"

definition priceSign :: "string option \<Rightarrow> string option" where
  "priceSign price_tag = repeat ''$'' (priceLevel price_tag)"

section \<open>fetchRestaurants: the candidates, the price filter and the duplicate names\<close>

text \<open>
  The object built for each element at lines 120 to 132. The two fields the wheel keeps,
  \<open>name\<close> and \<open>mapUrl\<close>, form the base record, so that every object carrying them (a
  restaurant, a history entry) can be put on the wheel. \<open>price\<close> is the string of dollar
  signs of line 113; \<open>lat\<close> and \<open>lng\<close> are \<open>None\<close> where the element has no coordinates.
\<close>

record wheelOption =
  name :: string
  mapUrl :: string

record restaurant = wheelOption +
  distance :: string
  price :: string
  lat :: "jsnum option"
  lng :: "jsnum option"
  osmId :: int
  osmType :: string
  osmUrl :: string

text \<open>
  Reading an array element for a comparison: past the end the element is \<^verbatim>\<open>undefined\<close>,
  which a relational operator converts to \<open>NaN\<close>.
\<close>

definition element_number :: "jsnum list \<Rightarrow> nat \<Rightarrow> jsnum" where
  "element_number xs i = (if i < length xs then xs ! i else NaN)"

text \<open>
  Lines 136 to 142. \<open>settings_price\<close> is \<^verbatim>\<open>settings.price\<close>, \<open>None\<close> when it is absent; an
  absent value and the empty string are falsy and skip the pass.
\<close>

definition minPrice :: "string \<Rightarrow> jsnum" where
  "minPrice p = element_number (map Number (split CHR '','' p)) 0"

definition maxPrice :: "string \<Rightarrow> jsnum" where
  "maxPrice p = element_number (map Number (split CHR '','' p)) 1"

definition restaurantPrice :: "'a restaurant_scheme \<Rightarrow> jsnum" where
  "restaurantPrice r = Fin (of_nat (length (price r)))"

definition price_filter :: "string option \<Rightarrow> restaurant list \<Rightarrow> restaurant list" where
  "price_filter settings_price restaurants =
     (case settings_price of
        None \<Rightarrow> restaurants
      | Some p \<Rightarrow>
          if p = [] then restaurants
          else filter (\<lambda>r. js_ge (restaurantPrice r) (minPrice p)
                         \<and> js_le (restaurantPrice r) (maxPrice p)) restaurants)"

text \<open>Lines 144 to 152: the filter over the set \<open>seen\<close> of names met so far.\<close>

fun remove_duplicates :: "string set \<Rightarrow> restaurant list \<Rightarrow> restaurant list" where
  "remove_duplicates seen [] = []"
| "remove_duplicates seen (r # rs) =
     (if name r \<in> seen then remove_duplicates seen rs
      else r # remove_duplicates (insert (name r) seen) rs)"

definition unique_restaurants :: "string option \<Rightarrow> restaurant list \<Rightarrow> restaurant list" where
  "unique_restaurants settings_price restaurants =
     remove_duplicates {} (price_filter settings_price restaurants)"

section \<open>updateWheel\<close>

text \<open>
  Line 186 sorts a copy of the array with the comparator \<^verbatim>\<open>() => Math.random() - 0.5\<close>.
  \<^verbatim>\<open>Array.prototype.sort\<close> is the host's. The comparator ignores its arguments, so a run
  of the host's algorithm on a given array is a decision tree: it either ends with an
  arrangement of the array, or calls the comparator and goes on according to the sign of
  the number returned (negative, zero, positive). The tree is finite: the host's sort
  ends. \<open>draws\<close> are the numbers returned by the successive calls of \<^verbatim>\<open>Math.random\<close>; a
  run that needs more of them than it is given has no result.
\<close>

datatype 'a sort_run = Sorted "'a list" | Compare "'a sort_run" "'a sort_run" "'a sort_run"

definition comparator :: "rat \<Rightarrow> rat" where
  "comparator random = random - 1 / 2"

fun run_sort :: "'a sort_run \<Rightarrow> rat list \<Rightarrow> 'a list option" where
  "run_sort (Sorted ys) draws = Some ys"
| "run_sort (Compare neg zero pos) [] = None"
| "run_sort (Compare neg zero pos) (random # draws) =
     run_sort (if comparator random < 0 then neg
               else if comparator random = 0 then zero else pos) draws"

text \<open>The arrangements a run can end with, and the number of draws its longest path takes.\<close>

fun results :: "'a sort_run \<Rightarrow> 'a list list" where
  "results (Sorted ys) = [ys]"
| "results (Compare neg zero pos) = results neg @ results zero @ results pos"

fun depth :: "'a sort_run \<Rightarrow> nat" where
  "depth (Sorted ys) = 0"
| "depth (Compare neg zero pos) = Suc (max (depth neg) (max (depth zero) (depth pos)))"

definition rearranges :: "'a sort_run \<Rightarrow> 'a list \<Rightarrow> bool" where
  "rearranges t xs = list_all (\<lambda>ys. mset ys = mset xs) (results t)"

text \<open>
  Lines 182 to 195: the wheel's options after the call. The options of before are cleared
  (line 183), so they are no argument. The copy kept in \<^verbatim>\<open>restaurantDetails\<close> and the
  drawing of the wheel (lines 201 to 209) are left out.
\<close>

definition updateWheel ::
  "(restaurant list \<Rightarrow> restaurant sort_run) \<Rightarrow> rat list \<Rightarrow> restaurant list
     \<Rightarrow> wheelOption list option" where
  "updateWheel host_sort draws restaurants =
     (case run_sort (host_sort restaurants) draws of
        None \<Rightarrow> None
      | Some shuffledRestaurants \<Rightarrow>
          (let selectedRestaurants = take 8 shuffledRestaurants
           in Some ([] @ map (\<lambda>r. \<lparr>name = name r, mapUrl = mapUrl r\<rparr>) selectedRestaurants)))"

text \<open>
  The probability that a run ends with the arrangement \<open>zs\<close>, when each call of the
  comparator returns, independently, a negative number with probability \<open>pn\<close>, zero with
  probability \<open>pz\<close> and a positive number with probability \<open>pp\<close>.
\<close>

fun probability :: "rat \<Rightarrow> rat \<Rightarrow> rat \<Rightarrow> 'a sort_run \<Rightarrow> 'a list \<Rightarrow> rat" where
  "probability pn pz pp (Sorted ys) zs = (if ys = zs then 1 else 0)"
| "probability pn pz pp (Compare neg zero pos) zs =
     pn * probability pn pz pp neg zs + pz * probability pn pz pp zero zs
       + pp * probability pn pz pp pos zs"

section \<open>The history\<close>

text \<open>
  Lines 274 to 287. The entry is the restaurant's fields and a \<open>timestamp\<close>; \<open>now\<close> is
  \<^verbatim>\<open>new Date().toISOString()\<close>. The result is the new value of \<open>restaurantHistory\<close>, which
  line 286 also writes to the storage.
\<close>

record historyEntry = restaurant +
  timestamp :: string

definition saveToHistory ::
  "string \<Rightarrow> restaurant \<Rightarrow> historyEntry list \<Rightarrow> historyEntry list" where
  "saveToHistory now r restaurantHistory =
     (let historyEntry =
            \<lparr>name = name r, mapUrl = mapUrl r, distance = distance r, price = price r,
             lat = lat r, lng = lng r, osmId = osmId r, osmType = osmType r,
             osmUrl = osmUrl r, timestamp = now\<rparr>;
          h = historyEntry # restaurantHistory
      in if length h > 20 then take 20 h else h)"

text \<open>A sequence of calls, each with its time and its restaurant, the first call first.\<close>

fun saveAll :: "(string \<times> restaurant) list \<Rightarrow> historyEntry list \<Rightarrow> historyEntry list" where
  "saveAll [] h = h"
| "saveAll ((now, r) # calls) h = saveAll calls (saveToHistory now r h)"

text \<open>\<^verbatim>\<open>restaurantHistory[index]\<close> (lines 324 and 341): \<open>None\<close> past the end.\<close>

definition history_get :: "historyEntry list \<Rightarrow> nat \<Rightarrow> historyEntry option" where
  "history_get h i = (if i < length h then Some (h ! i) else None)"

section \<open>addRestaurantToWheel\<close>

text \<open>Lines 352 to 360: \<open>pop\<close> drops the last option of a wheel of 8 or more.\<close>

definition addRestaurantToWheel ::
  "'a wheelOption_scheme \<Rightarrow> wheelOption list \<Rightarrow> wheelOption list" where
  "addRestaurantToWheel r options =
     (if length options \<ge> 8 then butlast options else options)
       @ [\<lparr>name = name r, mapUrl = mapUrl r\<rparr>]"

section \<open>Uniform shuffles and examples\<close>

text \<open>
  A shuffle is uniform on a list when each arrangement of the list has the same
  probability; \<open>arrangements\<close> lists them.
\<close>

definition uniform_shuffle ::
  "rat \<Rightarrow> rat \<Rightarrow> rat \<Rightarrow> 'a sort_run \<Rightarrow> 'a list list \<Rightarrow> bool" where
  "uniform_shuffle pn pz pp t arrangements =
     list_all (\<lambda>zs. probability pn pz pp t zs = 1 / of_nat (length arrangements)) arrangements"

text \<open>The rationals whose denominator is a power of two.\<close>

definition dyadic :: "rat \<Rightarrow> bool" where
  "dyadic q = (\<exists>m j. q = of_int m / 2 ^ j)"

text \<open>
  One possible host algorithm, for the examples: insertion sort. An element goes in front
  of the first element of the sorted part for which the comparator does not return a
  positive number.
\<close>

fun insert_run :: "'a \<Rightarrow> 'a list \<Rightarrow> ('a list \<Rightarrow> 'a sort_run) \<Rightarrow> 'a sort_run" where
  "insert_run x [] k = k [x]"
| "insert_run x (y # ys) k =
     Compare (k (x # y # ys)) (k (x # y # ys)) (insert_run x ys (\<lambda>zs. k (y # zs)))"

fun isort_run :: "'a list \<Rightarrow> ('a list \<Rightarrow> 'a sort_run) \<Rightarrow> 'a sort_run" where
  "isort_run [] k = k []"
| "isort_run (x # xs) k = isort_run xs (\<lambda>sorted. insert_run x sorted k)"

definition insertion_sort :: "'a list \<Rightarrow> 'a sort_run" where
  "insertion_sort xs = isort_run xs Sorted"

text \<open>A restaurant with a given name and price sign, for the examples.\<close>

definition example_restaurant :: "string \<Rightarrow> string \<Rightarrow> restaurant" where
  "example_restaurant n p =
     \<lparr>name = n, mapUrl = ''https://www.openstreetmap.org/?mlat=1&mlon=2&zoom=18'',
      distance = ''0.5'', price = p, lat = Some (Fin 1), lng = Some (Fin 2), osmId = 7,
      osmType = ''node'', osmUrl = ''https://www.openstreetmap.org/node/7''\<rparr>"

section \<open>The price level\<close>

text \<open>The clamp of line 109 on an integer, and on \<open>NaN\<close>.\<close>

lemma clamp_int:
  "Math_min (Math_max (Fin (of_int i)) (Fin 1)) (Fin 4) = Fin (of_int (min 4 (max 1 i)))"
  by (simp add: Math_max_def Math_min_def min_def max_def)

lemma clamp_cases:
  "Math_min (Math_max (Fin (of_int i)) (Fin 1)) (Fin 4) \<in> {Fin 1, Fin 2, Fin 3, Fin 4}"
proof -
  have "min 4 (max 1 i) \<in> {1, 2, 3, 4}"
    by (auto simp: min_def max_def)
  then show ?thesis
    unfolding clamp_int by auto
qed

lemma clamp_NaN: "Math_min (Math_max NaN (Fin 1)) (Fin 4) = NaN"
  by (simp add: Math_max_def Math_min_def)

lemma parse_digits_int: "parse_digits sg s = NaN \<or> (\<exists>i. parse_digits sg s = Fin (of_int i))"
  unfolding parse_digits_def Let_def by (simp only: split: if_splits) blast

lemma parseInt_int: "parseInt s = NaN \<or> (\<exists>i. parseInt s = Fin (of_int i))"
  using parse_digits_int by (simp add: parseInt_def split: list.splits)

text \<open>The price level is one of 1, 2, 3 and 4, or it is \<open>NaN\<close>.\<close>

lemma priceLevel_range:
  "priceLevel t = NaN \<or> priceLevel t \<in> {Fin 1, Fin 2, Fin 3, Fin 4}"
proof (cases t)
  case None
  then show ?thesis by (simp add: priceLevel_def)
next
  case (Some p)
  show ?thesis
  proof (cases "p = []")
    case True
    with Some show ?thesis by (simp add: priceLevel_def)
  next
    case False
    define level where "level =
       (if includes_chr p CHR ''$'' then Fin (of_int (int (length (split CHR ''$'' p)) - 1))
        else if \<not> isNaN p then parseInt p else Fin 2)"
    have pl: "priceLevel t = Math_min (Math_max level (Fin 1)) (Fin 4)"
      using Some False by (simp add: priceLevel_def level_def)
    have "level = NaN \<or> (\<exists>i. level = Fin (of_int i))"
    proof -
      have "Fin 2 = Fin (of_int 2)" by simp
      then show ?thesis
        unfolding level_def using parseInt_int[of p] by (metis (full_types))
    qed
    then show ?thesis
      unfolding pl using clamp_cases clamp_NaN by auto
  qed
qed

text \<open>
  The price sign is never an error: it is empty for the level \<open>NaN\<close> and has as many
  dollar signs as the level otherwise.
\<close>

lemma priceSign_length:
  "\<exists>s. priceSign t = Some s
     \<and> (priceLevel t = NaN \<longrightarrow> s = [])
     \<and> (\<forall>n. priceLevel t = Fin n \<longrightarrow> of_nat (length s) = n)"
  using priceLevel_range[of t]
  by (auto simp: priceSign_def repeat_def)

text \<open>A tag with a dollar sign: the number of its dollar signs, at most 4.\<close>

lemma split_from_length: "length (split_from sep cur s) = Suc (count_list s sep)"
  by (induction s arbitrary: cur) simp_all

lemma priceLevel_dollars:
  "includes_chr p CHR ''$'' \<Longrightarrow>
     priceLevel (Some p) = Fin (of_nat (min 4 (count_list p CHR ''$'')))"
proof -
  assume inc: "includes_chr p CHR ''$''"
  then have ne: "p \<noteq> []" and "count_list p CHR ''$'' \<noteq> 0"
    by (auto simp: includes_chr_def count_list_0_iff)
  then have pos: "1 \<le> count_list p CHR ''$''"
    by simp
  have "priceLevel (Some p)
          = Math_min (Math_max (Fin (of_int (int (count_list p CHR ''$'')))) (Fin 1)) (Fin 4)"
    using inc ne by (simp add: priceLevel_def split_def split_from_length)
  also have "\<dots> = Fin (of_int (min 4 (max 1 (int (count_list p CHR ''$'')))))"
    by (rule clamp_int)
  also have "min 4 (max 1 (int (count_list p CHR ''$''))) = int (min 4 (count_list p CHR ''$''))"
    using pos by (simp add: min_def max_def)
  finally show ?thesis by simp
qed

text \<open>No tag, the empty tag, and a tag that has no dollar sign and is no number: 2.\<close>

lemma priceLevel_default:
  "priceLevel None = Fin 2"
  "priceLevel (Some []) = Fin 2"
  "\<not> includes_chr p CHR ''$'' \<Longrightarrow> isNaN p \<Longrightarrow> priceLevel (Some p) = Fin 2"
  by (simp_all add: priceLevel_def Math_max_def Math_min_def)

text \<open>A tag made of decimal digits only: its value, clamped into \<open>1..4\<close>.\<close>

lemma digit_not_other:
  "is_digit c \<Longrightarrow> \<not> is_space c \<and> c \<noteq> CHR ''$'' \<and> c \<noteq> CHR ''+'' \<and> c \<noteq> CHR ''-''
     \<and> c \<noteq> CHR ''x'' \<and> c \<noteq> CHR ''X'' \<and> c \<noteq> CHR ''o'' \<and> c \<noteq> CHR ''O''
     \<and> c \<noteq> CHR ''b'' \<and> c \<noteq> CHR ''B'' \<and> c \<noteq> CHR ''I''"
  by (auto simp: is_digit_def is_space_def)

lemma all_digits_takeWhile:
  "list_all is_digit p \<Longrightarrow> takeWhile is_digit p = p \<and> dropWhile is_digit p = []"
  by (induction p) simp_all

lemma all_digits_trim: "all_digits p \<Longrightarrow> trim p = p \<and> trim_start p = p"
proof -
  assume a: "all_digits p"
  then obtain c cs where p: "p = c # cs" and c: "is_digit c"
    by (cases p) (auto simp: all_digits_def)
  from a have "is_digit (last p)"
    by (simp add: all_digits_def list_all_iff)
  then have l: "\<not> is_space (last p)" using digit_not_other by blast
  have f: "dropWhile is_space p = p"
    using c digit_not_other[of c] by (simp add: p)
  have "dropWhile is_space (rev p) = rev p"
  proof (cases "rev p")
    case Nil
    then show ?thesis by simp
  next
    case (Cons y ys)
    then have "y = last p"
      by (metis hd_rev list.sel(1))
    with l show ?thesis unfolding Cons by simp
  qed
  with f show ?thesis by (simp add: trim_def trim_start_def)
qed

lemma Number_digits: "all_digits p \<Longrightarrow> Number p = Fin (of_nat (digits_value 10 p))"
proof -
  assume a: "all_digits p"
  then obtain c cs where p: "p = c # cs" and c: "is_digit c" and cs: "list_all is_digit cs"
    by (cases p) (auto simp: all_digits_def)
  have rp: "radix_prefix p = None"
  proof (cases cs)
    case Nil
    then show ?thesis by (simp add: radix_prefix_def p)
  next
    case (Cons x ds)
    with cs have "is_digit x" by simp
    then show ?thesis
      using digit_not_other[of x] by (simp add: radix_prefix_def p Cons)
  qed
  have ud: "unsigned_decimal p = Fin (of_nat (digits_value 10 p))"
  proof -
    have "p \<noteq> ''Infinity''"
      using c digit_not_other[of c] p by auto
    moreover have "takeWhile is_digit p = p" "dropWhile is_digit p = []"
      using a all_digits_takeWhile by (auto simp: all_digits_def)
    ultimately show ?thesis
      using p by (simp add: unsigned_decimal_def)
  qed
  show ?thesis
    using all_digits_trim[OF a] rp ud c digit_not_other[of c]
    by (simp add: Number_def p[symmetric]) (simp add: p)
qed

lemma parseInt_digits: "all_digits p \<Longrightarrow> parseInt p = Fin (of_nat (digits_value 10 p))"
proof -
  assume a: "all_digits p"
  then obtain c cs where p: "p = c # cs" and c: "is_digit c" and cs: "list_all is_digit cs"
    by (cases p) (auto simp: all_digits_def)
  have tw: "takeWhile is_digit p = p"
    using a all_digits_takeWhile by (auto simp: all_digits_def)
  have nox: "\<not> (length p \<ge> 2 \<and> p ! 0 = CHR ''0'' \<and> (p ! 1 = CHR ''x'' \<or> p ! 1 = CHR ''X''))"
  proof (cases cs)
    case Nil
    then show ?thesis by (simp add: p)
  next
    case (Cons x ds)
    with cs have "is_digit x" by simp
    then show ?thesis
      using digit_not_other[of x] by (simp add: p Cons)
  qed
  have "parse_digits 1 p =
          (let z = takeWhile is_digit p in
           if z = [] then NaN else Fin (of_int (1 * int (digits_value 10 z))))"
    using nox unfolding parse_digits_def by (simp only: if_False)
  then have "parse_digits 1 p = Fin (of_nat (digits_value 10 p))"
    using a by (simp add: tw all_digits_def)
  then show ?thesis
    using all_digits_trim[OF a] c digit_not_other[of c] by (simp add: parseInt_def p)
qed

lemma priceLevel_digits:
  "all_digits p \<Longrightarrow> priceLevel (Some p) = Fin (of_nat (min 4 (max 1 (digits_value 10 p))))"
proof -
  assume a: "all_digits p"
  then have ne: "p \<noteq> []" and nd: "\<not> includes_chr p CHR ''$''"
    using digit_not_other by (auto simp: all_digits_def includes_chr_def list_all_iff)
  have "priceLevel (Some p)
          = Math_min (Math_max (Fin (of_int (int (digits_value 10 p)))) (Fin 1)) (Fin 4)"
    using ne nd Number_digits[OF a] parseInt_digits[OF a]
    by (simp add: priceLevel_def isNaN_def)
  also have "\<dots> = Fin (of_int (min 4 (max 1 (int (digits_value 10 p)))))"
    by (rule clamp_int)
  also have "min 4 (max 1 (int (digits_value 10 p))) = int (min 4 (max 1 (digits_value 10 p)))"
    by (simp add: min_def max_def)
  finally show ?thesis by simp
qed

text \<open>
  C1 (the failing input). The price level is meant to lie in \<open>1..4\<close> (lines 97 and 108).
  The tag \<^verbatim>\<open>.5\<close> is a number for \<^verbatim>\<open>isNaN\<close>, while \<^verbatim>\<open>parseInt\<close> finds no digit at its
  start: the level is \<open>NaN\<close>, which the clamp of line 109 passes on, and the price sign
  of line 113 is the empty string.
\<close>

theorem priceLevel_fraction_tag:
  "priceLevel (Some ''.5'') = NaN \<and> priceSign (Some ''.5'') = Some []"
  by (simp add: priceSign_def repeat_def priceLevel_def includes_chr_def isNaN_def Number_def
      radix_prefix_def trim_def is_space_def unsigned_decimal_def is_digit_def
      exponent_part_def parseInt_def trim_start_def parse_digits_def Math_max_def
      Math_min_def digits_value_def digit_value_def scale10_def)

section \<open>The wheel\<close>

text \<open>
  C7. On a wheel of exactly 8 options, addRestaurantToWheel drops the last option, keeps
  the first 7 in their order, puts the new option at the end, and leaves 8 options.
\<close>

theorem addRestaurantToWheel_full:
  "length options = 8 \<Longrightarrow>
     addRestaurantToWheel r options
       = take 7 options @ [\<lparr>name = name r, mapUrl = mapUrl r\<rparr>]
     \<and> length (addRestaurantToWheel r options) = 8"
  by (simp add: addRestaurantToWheel_def butlast_conv_take)

theorem addRestaurantToWheel_full_witness:
  "length (map (\<lambda>n. \<lparr>name = n, mapUrl = ''u''\<rparr>)
             [''A'', ''B'', ''C'', ''D'', ''E'', ''F'', ''G'', ''H'']) = 8
   \<and> addRestaurantToWheel \<lparr>name = ''I'', mapUrl = ''v''\<rparr>
        (map (\<lambda>n. \<lparr>name = n, mapUrl = ''u''\<rparr>)
             [''A'', ''B'', ''C'', ''D'', ''E'', ''F'', ''G'', ''H''])
       = map (\<lambda>n. \<lparr>name = n, mapUrl = ''u''\<rparr>) [''A'', ''B'', ''C'', ''D'', ''E'', ''F'', ''G'']
           @ [\<lparr>name = ''I'', mapUrl = ''v''\<rparr>]"
  using addRestaurantToWheel_full
    [of "map (\<lambda>n. \<lparr>name = n, mapUrl = ''u''\<rparr>)
           [''A'', ''B'', ''C'', ''D'', ''E'', ''F'', ''G'', ''H'']"
        "\<lparr>name = ''I'', mapUrl = ''v''\<rparr>"]
  by simp

text \<open>
  C10. On a wheel of fewer than 8 options, addRestaurantToWheel drops nothing: the
  options of before stay, in their order, the new option follows them, the wheel has one
  option more and at most 8.
\<close>

theorem addRestaurantToWheel_room:
  "length options < 8 \<Longrightarrow>
     addRestaurantToWheel r options = options @ [\<lparr>name = name r, mapUrl = mapUrl r\<rparr>]
     \<and> length (addRestaurantToWheel r options) = Suc (length options)
     \<and> length (addRestaurantToWheel r options) \<le> 8"
  by (simp add: addRestaurantToWheel_def)

theorem addRestaurantToWheel_room_witness:
  "length [\<lparr>name = ''A'', mapUrl = ''u''\<rparr>] < 8
   \<and> addRestaurantToWheel \<lparr>name = ''I'', mapUrl = ''v''\<rparr> [\<lparr>name = ''A'', mapUrl = ''u''\<rparr>]
       = [\<lparr>name = ''A'', mapUrl = ''u''\<rparr>, \<lparr>name = ''I'', mapUrl = ''v''\<rparr>]"
  using addRestaurantToWheel_room
    [of "[\<lparr>name = ''A'', mapUrl = ''u''\<rparr>]" "\<lparr>name = ''I'', mapUrl = ''v''\<rparr>"]
  by simp

section \<open>The history\<close>

lemma saveToHistory_take:
  "saveToHistory now r h = take 20 (restaurant.extend r (historyEntry.fields now) # h)"
  by (simp add: saveToHistory_def Let_def restaurant.defs historyEntry.defs)

lemma saveToHistory_length: "length (saveToHistory now r h) \<le> 20"
  by (simp add: saveToHistory_take)

lemma saveToHistory_first:
  "history_get (saveToHistory now r h) 0 = Some (restaurant.extend r (historyEntry.fields now))"
  by (simp add: saveToHistory_take history_get_def)

lemma saveAll_append: "saveAll (calls @ [(now, r)]) h = saveToHistory now r (saveAll calls h)"
  by (induction calls h rule: saveAll.induct) simp_all

lemma saveAll_length: "length h \<le> 20 \<Longrightarrow> length (saveAll calls h) \<le> 20"
  by (induction calls h rule: saveAll.induct) (simp_all add: saveToHistory_length)

lemma entry_fields:
  "restaurant.truncate (restaurant.extend r (historyEntry.fields now)) = r"
  "timestamp (restaurant.extend r (historyEntry.fields now)) = now"
  by (simp_all add: restaurant.defs historyEntry.defs)

text \<open>
  C4. After a sequence of calls of saveToHistory that ends with the call for \<open>r\<close> at time
  \<open>now\<close>, whatever the history was before, the history has at most 20 entries and its
  entry 0 is \<open>r\<close> with the timestamp \<open>now\<close>. A history of at most 20 entries stays so
  after any sequence of calls, the empty one too. One call puts the new entry in front
  and keeps the first 20 entries.
\<close>

theorem history_bounded:
  "length (saveAll (calls @ [(now, r)]) h) \<le> 20
   \<and> (\<exists>e. history_get (saveAll (calls @ [(now, r)]) h) 0 = Some e
          \<and> restaurant.truncate e = r \<and> timestamp e = now)
   \<and> (length h \<le> 20 \<longrightarrow> length (saveAll calls h) \<le> 20)
   \<and> (\<exists>e. restaurant.truncate e = r \<and> timestamp e = now
          \<and> saveToHistory now r h = take 20 (e # h))"
  using saveToHistory_take[of now r h] entry_fields[of r now]
  by (auto simp: saveAll_append saveToHistory_length saveToHistory_first saveAll_length)

theorem history_bounded_witness:
  "length ([] :: historyEntry list) \<le> 20
   \<and> length (saveAll (replicate 25 (''2026-01-01T12:00:00.000Z'',
          \<lparr>name = ''A'', mapUrl = ''u'', distance = ''0.5'', price = ''$$'',
           lat = Some (Fin 1), lng = Some (Fin 2), osmId = 7, osmType = ''node'',
           osmUrl = ''w''\<rparr>)) []) \<le> 20"
  using history_bounded
    [of "replicate 25 (''2026-01-01T12:00:00.000Z'',
          \<lparr>name = ''A'', mapUrl = ''u'', distance = ''0.5'', price = ''$$'',
           lat = Some (Fin 1), lng = Some (Fin 2), osmId = 7, osmType = ''node'',
           osmUrl = ''w''\<rparr>)"
        "''now''"
        "\<lparr>name = ''A'', mapUrl = ''u'', distance = ''0.5'', price = ''$$'',
           lat = Some (Fin 1), lng = Some (Fin 2), osmId = 7, osmType = ''node'',
           osmUrl = ''w''\<rparr>"
        "[]"]
  by simp

text \<open>
  C8. After saveToHistory of a candidate \<open>c\<close>, on any history, entry 0 of the history
  has the fields of \<open>c\<close>, with their values, and one field more, the timestamp.
\<close>

theorem saveToHistory_roundtrip:
  "\<exists>e. history_get (saveToHistory now c h) 0 = Some e
      \<and> restaurant.truncate e = c \<and> restaurant.more e = \<lparr>timestamp = now\<rparr>"
  by (simp add: saveToHistory_first restaurant.defs historyEntry.defs)

section \<open>The price filter\<close>

text \<open>The two bounds of a setting made of two digit sequences and a comma.\<close>

lemma split_from_no_sep: "sep \<notin> set s \<Longrightarrow> split_from sep cur s = [rev cur @ s]"
  by (induction s arbitrary: cur) auto

lemma split_from_one_sep:
  "sep \<notin> set a \<Longrightarrow> sep \<notin> set b \<Longrightarrow> split_from sep cur (a @ sep # b) = [rev cur @ a, b]"
  by (induction a arbitrary: cur) (auto simp: split_from_no_sep)

lemma digits_no_comma: "all_digits a \<Longrightarrow> CHR '','' \<notin> set a"
  by (auto simp: all_digits_def list_all_iff is_digit_def)

lemma bounds_of_digits:
  "all_digits a \<Longrightarrow> all_digits b \<Longrightarrow>
     minPrice (a @ '','' @ b) = Fin (of_nat (digits_value 10 a))
     \<and> maxPrice (a @ '','' @ b) = Fin (of_nat (digits_value 10 b))"
  using split_from_one_sep[of "CHR '',''" a b "[]"]
  by (simp add: minPrice_def maxPrice_def split_def element_number_def digits_no_comma
      Number_digits)

text \<open>
  C5. Without a price setting, or with the empty one, the pass is skipped and every
  candidate is kept. With a setting whose two bounds are the numbers \<open>lo\<close> and \<open>hi\<close>,
  the pass keeps, in their order, exactly the candidates whose price level (the length of
  their price sign, line 139) is at least \<open>lo\<close> and at most \<open>hi\<close>, both bounds included.
  So it is for a setting written as two decimal numbers with a comma between them.
\<close>

theorem price_filter_inclusive:
  "price_filter None rs = rs
   \<and> price_filter (Some []) rs = rs
   \<and> (p \<noteq> [] \<longrightarrow> minPrice p = Fin lo \<longrightarrow> maxPrice p = Fin hi \<longrightarrow>
        price_filter (Some p) rs
          = filter (\<lambda>r. lo \<le> of_nat (length (price r)) \<and> of_nat (length (price r)) \<le> hi) rs)
   \<and> (all_digits a \<longrightarrow> all_digits b \<longrightarrow>
        price_filter (Some (a @ '','' @ b)) rs
          = filter (\<lambda>r. digits_value 10 a \<le> length (price r)
                         \<and> length (price r) \<le> digits_value 10 b) rs)"
proof -
  have given: "price_filter (Some p) rs
          = filter (\<lambda>r. lo \<le> of_nat (length (price r)) \<and> of_nat (length (price r)) \<le> hi) rs"
    if "p \<noteq> []" "minPrice p = Fin lo" "maxPrice p = Fin hi" for p lo hi
    using that by (simp add: price_filter_def js_ge_def restaurantPrice_def)
  have "price_filter (Some (a @ '','' @ b)) rs
          = filter (\<lambda>r. digits_value 10 a \<le> length (price r)
                         \<and> length (price r) \<le> digits_value 10 b) rs"
    if "all_digits a" "all_digits b"
    using given[of "a @ '','' @ b" "of_nat (digits_value 10 a)" "of_nat (digits_value 10 b)"]
      bounds_of_digits[OF that]
    by simp
  with given show ?thesis
    by (simp add: price_filter_def)
qed

lemma bounds_2_3: "minPrice ''2,3'' = Fin 2 \<and> maxPrice ''2,3'' = Fin 3"
  by (simp add: minPrice_def maxPrice_def split_def element_number_def Number_def
      radix_prefix_def trim_def is_space_def unsigned_decimal_def is_digit_def
      digits_value_def digit_value_def)

theorem price_filter_inclusive_witness:
  "all_digits ''2'' \<and> all_digits ''3''
   \<and> ''2,3'' \<noteq> [] \<and> minPrice ''2,3'' = Fin 2 \<and> maxPrice ''2,3'' = Fin 3
   \<and> price_filter (Some ''2,3'')
        [example_restaurant ''A'' ''$'', example_restaurant ''B'' ''$$'',
         example_restaurant ''C'' ''$$$'', example_restaurant ''D'' ''$$$$'']
       = [example_restaurant ''B'' ''$$'', example_restaurant ''C'' ''$$$'']"
  using price_filter_inclusive
    [of "[example_restaurant ''A'' ''$'', example_restaurant ''B'' ''$$'',
          example_restaurant ''C'' ''$$$'', example_restaurant ''D'' ''$$$$'']"
        "''2,3''" 2 3 "''2''" "''3''"]
    bounds_2_3
  by (simp add: example_restaurant_def all_digits_def is_digit_def digits_value_def
      digit_value_def)

text \<open>
  The tags \<^verbatim>\<open>$$\<close>, \<^verbatim>\<open>$$$\<close> and \<^verbatim>\<open>1\<close> give the price signs of levels 2, 3 and 1; with
  the setting \<^verbatim>\<open>1,2\<close>, the second of three such candidates named A, A and B is dropped
  by the price filter, and the two others are kept by the pass over the names.
\<close>

lemma priceSign_example:
  "map priceSign [Some ''$$'', Some ''$$$'', Some ''1'']
     = [Some ''$$'', Some ''$$$'', Some ''$'']"
  by code_simp

lemma unique_restaurants_example:
  "unique_restaurants (Some ''1,2'')
     [example_restaurant ''A'' ''$$'', example_restaurant ''A'' ''$$$'',
      example_restaurant ''B'' ''$'']
   = [example_restaurant ''A'' ''$$'', example_restaurant ''B'' ''$'']"
  by code_simp

section \<open>The duplicate names\<close>

lemma upt_Suc_shift: "[0..<Suc n] = 0 # map Suc [0..<n]"
  by (simp add: upt_conv_Cons map_Suc_upt del: upt_Suc)

lemma remove_duplicates_index:
  "remove_duplicates seen rs =
     map (\<lambda>i. rs ! i)
       (filter (\<lambda>i. name (rs ! i) \<notin> seen \<union> name ` set (take i rs)) [0..<length rs])"
proof (induction rs arbitrary: seen)
  case Nil
  show ?case by simp
next
  case (Cons r rs)
  let ?P = "\<lambda>s i. name (rs ! i) \<notin> s \<union> name ` set (take i rs)"
  let ?Q = "\<lambda>i. name ((r # rs) ! i) \<notin> seen \<union> name ` set (take i (r # rs))"
  have later: "filter ?Q (map Suc [0..<length rs])
                 = map Suc (filter (?P (insert (name r) seen)) [0..<length rs])"
    by (auto simp: filter_map comp_def intro!: arg_cong[where f="map Suc"] filter_cong)
  have "filter ?Q [0..<Suc (length rs)] = filter ?Q (0 # map Suc [0..<length rs])"
    by (simp only: upt_Suc_shift)
  also have "\<dots> = (if name r \<in> seen then [] else [0]) @ filter ?Q (map Suc [0..<length rs])"
    by simp
  finally have split: "filter ?Q [0..<Suc (length rs)]
     = (if name r \<in> seen then [] else [0])
         @ map Suc (filter (?P (insert (name r) seen)) [0..<length rs])"
    by (simp only: later)
  have len: "length (r # rs) = Suc (length rs)" by simp
  show ?case
  proof (cases "name r \<in> seen")
    case True
    then have same: "insert (name r) seen = seen" by auto
    show ?thesis
      unfolding len split using True by (simp add: same Cons.IH comp_def)
  next
    case False
    then show ?thesis
      unfolding len split by (simp add: Cons.IH comp_def)
  qed
qed

lemma remove_duplicates_names:
  "name ` set (remove_duplicates seen rs) = name ` set rs - seen"
  by (induction seen rs rule: remove_duplicates.induct) auto

lemma remove_duplicates_distinct:
  "distinct (map name (remove_duplicates seen rs))"
proof (induction seen rs rule: remove_duplicates.induct)
  case (1 seen)
  show ?case by simp
next
  case (2 seen r rs)
  have "name r \<notin> name ` set (remove_duplicates (insert (name r) seen) rs)"
    unfolding remove_duplicates_names by simp
  with 2 show ?case by simp
qed

text \<open>
  C6. The pass over the names keeps, in the order of the list, exactly the candidates at
  the positions \<open>i\<close> whose name is the name of no candidate before \<open>i\<close>: the first
  candidate of each name. The names kept are pairwise different.
\<close>

theorem remove_duplicates_first_occurrences:
  "remove_duplicates {} rs =
     map (\<lambda>i. rs ! i)
       (filter (\<lambda>i. name (rs ! i) \<notin> name ` set (take i rs)) [0..<length rs])
   \<and> distinct (map name (remove_duplicates {} rs))"
proof
  show "remove_duplicates {} rs =
     map (\<lambda>i. rs ! i)
       (filter (\<lambda>i. name (rs ! i) \<notin> name ` set (take i rs)) [0..<length rs])"
    by (simp add: remove_duplicates_index)
  show "distinct (map name (remove_duplicates {} rs))"
    by (rule remove_duplicates_distinct)
qed

lemma remove_duplicates_example:
  "remove_duplicates {}
     [example_restaurant ''A'' ''$$'', example_restaurant ''B'' ''$'',
      example_restaurant ''A'' ''$$$'', example_restaurant ''B'' ''$'',
      example_restaurant ''C'' ''$'']
   = [example_restaurant ''A'' ''$$'', example_restaurant ''B'' ''$'',
      example_restaurant ''C'' ''$'']"
  by (simp add: example_restaurant_def)

section \<open>updateWheel: the number of options\<close>

text \<open>A run that is given as many draws as its longest path takes ends with a result.\<close>

lemma run_sort_result:
  "depth t \<le> length draws \<Longrightarrow> \<exists>ys. run_sort t draws = Some ys \<and> ys \<in> set (results t)"
proof (induction t arbitrary: draws)
  case (Sorted ys)
  show ?case by simp
next
  case (Compare neg zero pos)
  from Compare.prems obtain random rest where draws: "draws = random # rest"
    by (cases draws) auto
  with Compare.prems have "depth neg \<le> length rest" "depth zero \<le> length rest"
    "depth pos \<le> length rest" by auto
  then obtain yn yz yp where
    "run_sort neg rest = Some yn" "yn \<in> set (results neg)"
    "run_sort zero rest = Some yz" "yz \<in> set (results zero)"
    "run_sort pos rest = Some yp" "yp \<in> set (results pos)"
    using Compare.IH by blast
  then show ?case by (simp add: draws)
qed

text \<open>
  C2. When the host's sort only rearranges the array, and \<^verbatim>\<open>Math.random\<close> is drawn as
  often as the sort asks, updateWheel returns, and the wheel has \<open>min N 8\<close> options for
  \<open>N\<close> candidates (none for no candidate): the \<open>name\<close> and \<open>mapUrl\<close>, and nothing else,
  of the first 8 candidates of an arrangement of the list.
\<close>

theorem updateWheel_options:
  "rearranges (host_sort restaurants) restaurants \<Longrightarrow>
   depth (host_sort restaurants) \<le> length draws \<Longrightarrow>
   \<exists>options shuffled.
      updateWheel host_sort draws restaurants = Some options
      \<and> length options = min (length restaurants) 8
      \<and> mset shuffled = mset restaurants
      \<and> options = map (\<lambda>r. \<lparr>name = name r, mapUrl = mapUrl r\<rparr>) (take 8 shuffled)"
proof -
  assume re: "rearranges (host_sort restaurants) restaurants"
    and de: "depth (host_sort restaurants) \<le> length draws"
  from run_sort_result[OF de] obtain ys where
    ys: "run_sort (host_sort restaurants) draws = Some ys"
      "ys \<in> set (results (host_sort restaurants))"
    by blast
  with re have m: "mset ys = mset restaurants"
    by (simp add: rearranges_def list_all_iff)
  then have "length ys = length restaurants"
    by (metis size_mset)
  with ys m show ?thesis
    by (auto simp: updateWheel_def Let_def min_def)
qed

theorem updateWheel_options_witness:
  "rearranges (insertion_sort [example_restaurant ''A'' ''$'', example_restaurant ''B'' ''$$''])
     [example_restaurant ''A'' ''$'', example_restaurant ''B'' ''$$'']
   \<and> depth (insertion_sort [example_restaurant ''A'' ''$'', example_restaurant ''B'' ''$$''])
       \<le> length [3 / 4 :: rat]
   \<and> (\<exists>options. updateWheel insertion_sort [3 / 4]
          [example_restaurant ''A'' ''$'', example_restaurant ''B'' ''$$''] = Some options
        \<and> length options = 2)"
  using updateWheel_options
    [of insertion_sort "[example_restaurant ''A'' ''$'', example_restaurant ''B'' ''$$'']"
        "[3 / 4]"]
  by (auto simp: insertion_sort_def rearranges_def)

text \<open>Nine candidates, with a host that returns the array reversed: 8 options.\<close>

lemma updateWheel_nine_example:
  "map_option length
     (updateWheel (\<lambda>xs. Sorted (rev xs)) []
        (map (\<lambda>n. example_restaurant n ''$$'')
           [''A'', ''B'', ''C'', ''D'', ''E'', ''F'', ''G'', ''H'', ''I'']))
   = Some 8"
  by (simp add: updateWheel_def)

section \<open>updateWheel: the shuffle is not uniform\<close>

lemma dyadic_of_int: "dyadic (of_int m / 2 ^ j)"
  unfolding dyadic_def by blast

lemma dyadic_0: "dyadic 0"
  using dyadic_of_int[of 0 0] by simp

lemma dyadic_1: "dyadic 1"
  using dyadic_of_int[of 1 0] by simp

lemma dyadic_mult: "dyadic p \<Longrightarrow> dyadic q \<Longrightarrow> dyadic (p * q)"
proof -
  assume "dyadic p" "dyadic q"
  then obtain m j n i where p: "p = of_int m / 2 ^ j" and q: "q = of_int n / 2 ^ i"
    unfolding dyadic_def by blast
  have "p * q = of_int (m * n) / 2 ^ (j + i)"
    by (simp add: p q power_add)
  then show ?thesis unfolding dyadic_def by blast
qed

lemma dyadic_add: "dyadic p \<Longrightarrow> dyadic q \<Longrightarrow> dyadic (p + q)"
proof -
  assume "dyadic p" "dyadic q"
  then obtain m j n i where p: "p = of_int m / 2 ^ j" and q: "q = of_int n / 2 ^ i"
    unfolding dyadic_def by blast
  have "p + q = of_int (m * 2 ^ i + n * 2 ^ j) / 2 ^ (j + i)"
    by (simp add: p q power_add field_simps)
  then show ?thesis unfolding dyadic_def by blast
qed

lemma probability_dyadic:
  "dyadic pn \<Longrightarrow> dyadic pz \<Longrightarrow> dyadic pp \<Longrightarrow> dyadic (probability pn pz pp t zs)"
  by (induction t) (simp_all add: dyadic_0 dyadic_1 dyadic_add dyadic_mult)

lemma pow2_mod3: "(2::int) ^ j mod 3 = 1 \<or> (2::int) ^ j mod 3 = 2"
proof (induction j)
  case 0
  show ?case by simp
next
  case (Suc j)
  have "(2::int) ^ Suc j mod 3 = (2 * (2 ^ j mod 3)) mod 3"
    by (simp add: mod_mult_right_eq)
  with Suc show ?case by auto
qed

lemma sixth_not_dyadic: "\<not> dyadic (1 / 6)"
proof
  assume "dyadic (1 / 6)"
  then obtain m j where "(1 / 6 :: rat) = of_int m / 2 ^ j"
    unfolding dyadic_def by blast
  then have "(2 :: rat) ^ j = 6 * of_int m"
    by (simp add: field_simps)
  then have "(of_int (2 ^ j) :: rat) = of_int (6 * m)"
    by simp
  then have "(2 :: int) ^ j = 6 * m"
    by (simp only: of_int_eq_iff)
  then have "(2 :: int) ^ j mod 3 = 0"
    by simp
  with pow2_mod3[of j] show False by simp
qed

text \<open>
  C3 (the failing input). Take three candidates, and let each call of the comparator
  return a negative number, zero or a positive number with probabilities whose
  denominators are a power of two: one half, none and one half for an ideal
  \<^verbatim>\<open>Math.random\<close>, multiples of \<open>1 / 2 ^ 53\<close> for a generator of doubles. Whatever the
  host's algorithm, the six arrangements are not equally likely: the probability of an
  arrangement has a power of two for denominator, and \<open>1 / 6\<close> has not.
\<close>

theorem comparator_sort_not_uniform:
  "\<not> uniform_shuffle (of_int a / 2 ^ k) (of_int b / 2 ^ k) (of_int c / 2 ^ k)
        (host_sort [x, y, z])
        [[x, y, z], [x, z, y], [y, x, z], [y, z, x], [z, x, y], [z, y, x]]"
proof
  assume "uniform_shuffle (of_int a / 2 ^ k) (of_int b / 2 ^ k) (of_int c / 2 ^ k)
            (host_sort [x, y, z])
            [[x, y, z], [x, z, y], [y, x, z], [y, z, x], [z, x, y], [z, y, x]]"
  then have "probability (of_int a / 2 ^ k) (of_int b / 2 ^ k) (of_int c / 2 ^ k)
               (host_sort [x, y, z]) [x, y, z] = 1 / 6"
    by (simp add: uniform_shuffle_def)
  moreover have "dyadic (probability (of_int a / 2 ^ k) (of_int b / 2 ^ k) (of_int c / 2 ^ k)
                   (host_sort [x, y, z]) [x, y, z])"
    by (rule probability_dyadic) (rule dyadic_of_int)+
  ultimately have "dyadic (1 / 6)"
    by (simp only:)
  with sixth_not_dyadic show False
    by simp
qed

text \<open>
  With insertion sort for the host's algorithm and a comparator that returns a negative
  or a positive number with probability one half each, two of the six arrangements of
  three candidates have probability one quarter and four have one eighth.
\<close>

lemma insertion_sort_probabilities:
  "map (probability (1 / 2) 0 (1 / 2) (insertion_sort [''A'', ''B'', ''C'']))
     [[''A'', ''B'', ''C''], [''A'', ''C'', ''B''], [''B'', ''A'', ''C''],
      [''B'', ''C'', ''A''], [''C'', ''A'', ''B''], [''C'', ''B'', ''A'']]
   = [1 / 4, 1 / 4, 1 / 8, 1 / 8, 1 / 8, 1 / 8]"
  by (simp add: insertion_sort_def)

end
